theory Spec2Isabelle
  imports Complex_Main "HOL-Library.Word"
begin

section \<open>Values of the host language\<close>

text \<open>
  The program is browser JavaScript (\<^verbatim>\<open>src/script.js\<close>). Numbers are modelled as exact
  rationals: the only arithmetic the reducers do on fractional numbers is the decrement
  \<^verbatim>\<open>quality - 0.05\<close>, the clamp \<^verbatim>\<open>Math.max(0.05, ...)\<close>, comparisons, and
  \<^verbatim>\<open>Math.round\<close> of a length divided by 1024 (exact in binary) or of a quality times 100
  (see \<open>Percent\<close> below for the qualities that come from the caller).
  \<^verbatim>\<open>NaN\<close> (what \<^verbatim>\<open>Number\<close> and \<^verbatim>\<open>parseInt\<close> give for an empty or unparsable field)
  is \<open>None\<close>.
\<close>

type_synonym byte = "8 word"
type_synonym bytes = "byte list"

datatype error = Error (message: string)

definition js_round :: "rat \<Rightarrow> int" where
  \<comment> \<open>\<^verbatim>\<open>Math.round\<close>: nearest integer, halves towards plus infinity.\<close>
  "js_round x = \<lfloor>x + 1 / 2\<rfloor>"

definition sizeKB_of :: "nat \<Rightarrow> int" where
  \<comment> \<open>\<^verbatim>\<open>Math.round(n / 1024)\<close> for a length \<open>n\<close>.\<close>
  "sizeKB_of n = js_round (of_nat n / 1024)"

record blob =
  blob_data :: bytes
  blob_type :: string

datatype download_data = IsBlob blob | RawBytes bytes | Undefined

section \<open>Effects: the trace of a run\<close>

text \<open>
  Every call the program makes to the page, the browser or a library is recorded, in order,
  as an event. Status texts are template literals; they are kept as their pieces, a number
  staying a number (the pictographs that start some messages are left out).

  \<open>Percent q\<close> is the piece \<^verbatim>\<open>${Math.round(quality * 100)}\<close> for a quality \<open>q\<close> that comes
  from the caller. The product is rounded to a double before \<^verbatim>\<open>Math.round\<close> sees it (at
  0.145 it is 14.499999999999998 and prints 14), so its digits are not computed here. Where
  the quality is one of the program's own values (0.9, 0.7, 0.5, 0.3, and the nineteen
  values of the step-decay search) the double and the exact product round alike, and the
  piece is the number.
\<close>

datatype status_type = StSuccess | StError | StProcessing | StHidden

datatype piece = Text string | Num rat | Percent rat

type_synonym status_text = "piece list"

datatype event =
    SetStatus status_text status_type
  | ConsoleError string error
  | Download blob string
  | ReadAsDataURL
  | LoadImage
  | DrawImage
  | ToDataURL rat
  | ArrayBuffer
  | CreateDocument
  | GetDocument
  | GetPage nat
  | Render nat
  | Fetch
  | EmbedJpg
  | AddPage
  | DrawPageImage
  | Save

text \<open>
  A run ends normally with a value, ends with a thrown error, or is still inside a loop
  when the fuel given to it is used up.
\<close>

datatype 'a outcome = Done 'a | Raised error | Unfinished

type_synonym 'a run = "event list \<times> 'a outcome"

definition ret :: "'a \<Rightarrow> 'a run" where
  "ret x = ([], Done x)"

definition throw :: "error \<Rightarrow> 'a run" where
  "throw e = ([], Raised e)"

definition emit :: "event \<Rightarrow> unit run" where
  "emit ev = ([ev], Done ())"

definition call :: "event \<Rightarrow> error + 'a \<Rightarrow> 'a run" where
  \<comment> \<open>A call of a collaborator: the call is recorded, its failure is a thrown error.\<close>
  "call ev r = ([ev], case r of Inl e \<Rightarrow> Raised e | Inr x \<Rightarrow> Done x)"

definition lift :: "error + 'a \<Rightarrow> 'a run" where
  \<comment> \<open>A function of the program itself that may throw: nothing is recorded.\<close>
  "lift r = ([], case r of Inl e \<Rightarrow> Raised e | Inr x \<Rightarrow> Done x)"

definition seq :: "'a run \<Rightarrow> ('a \<Rightarrow> 'b run) \<Rightarrow> 'b run" where
  "seq m f =
     (case m of
        (l, Done x) \<Rightarrow> (case f x of (l', r) \<Rightarrow> (l @ l', r))
      | (l, Raised e) \<Rightarrow> (l, Raised e)
      | (l, Unfinished) \<Rightarrow> (l, Unfinished))"

definition try_catch :: "'a run \<Rightarrow> (error \<Rightarrow> 'a run) \<Rightarrow> 'a run" where
  "try_catch m h =
     (case m of
        (l, Raised e) \<Rightarrow> (case h e of (l', r) \<Rightarrow> (l @ l', r))
      | (l, Done x) \<Rightarrow> (l, Done x)
      | (l, Unfinished) \<Rightarrow> (l, Unfinished))"

section \<open>Global helpers\<close>

definition setStatus :: "status_text \<Rightarrow> status_type \<Rightarrow> unit run" where
  "setStatus msg ty = emit (SetStatus msg ty)"

subsection \<open>\<^verbatim>\<open>atob\<close>: forgiving Base64 decoding\<close>

definition b64_index :: "char \<Rightarrow> nat option" where
  "b64_index c =
     (let n = (of_char c :: nat) in
      if 65 \<le> n \<and> n \<le> 90 then Some (n - 65)
      else if 97 \<le> n \<and> n \<le> 122 then Some (n - 71)
      else if 48 \<le> n \<and> n \<le> 57 then Some (n + 4)
      else if n = 43 then Some 62
      else if n = 47 then Some 63
      else None)"

definition ascii_whitespace :: "char \<Rightarrow> bool" where
  "ascii_whitespace c = ((of_char c :: nat) \<in> {9, 10, 12, 13, 32})"

definition strip_padding :: "string \<Rightarrow> string" where
  "strip_padding d =
     (if 2 \<le> length d \<and> drop (length d - 2) d = ''==''
      then take (length d - 2) d
      else if 1 \<le> length d \<and> drop (length d - 1) d = ''=''
      then take (length d - 1) d
      else d)"

fun b64_groups :: "nat list \<Rightarrow> nat list" where
  "b64_groups (a # b # c # d # rest) =
     (let n = a * 262144 + b * 4096 + c * 64 + d
      in [n div 65536, (n div 256) mod 256, n mod 256] @ b64_groups rest)"
| "b64_groups [a, b, c] =
     (let n = a * 4096 + b * 64 + c in [n div 1024, (n div 4) mod 256])"
| "b64_groups [a, b] = [(a * 64 + b) div 16]"
| "b64_groups _ = []"

definition atob :: "string \<Rightarrow> error + nat list" where
  \<comment> \<open>The result is a binary string: one character code below 256 for each byte.\<close>
  "atob s =
     (let d0 = filter (\<lambda>c. \<not> ascii_whitespace c) s;
          d = (if length d0 mod 4 = 0 then strip_padding d0 else d0)
      in if length d mod 4 = 1 then Inl (Error ''InvalidCharacterError'')
         else (case those (map b64_index d) of
                 None \<Rightarrow> Inl (Error ''InvalidCharacterError'')
               | Some vs \<Rightarrow> Inr (b64_groups vs)))"

subsection \<open>\<^verbatim>\<open>dataURLToBlob\<close>\<close>

fun split_on :: "char \<Rightarrow> string \<Rightarrow> string list" where
  "split_on c [] = [[]]"
| "split_on c (x # xs) =
     (if x = c then [] # split_on c xs
      else (case split_on c xs of [] \<Rightarrow> [[x]] | p # ps \<Rightarrow> (x # p) # ps))"

fun upto_semicolon :: "string \<Rightarrow> string option" where
  \<comment> \<open>\<^verbatim>\<open>(.*?);\<close>: the shortest run of characters other than line terminators before a semicolon.\<close>
  "upto_semicolon [] = None"
| "upto_semicolon (c # cs) =
     (if c = CHR '';'' then Some []
      else if (of_char c :: nat) \<in> {10, 13} then None
      else map_option ((#) c) (upto_semicolon cs))"

fun match_mime :: "string \<Rightarrow> string option" where
  \<comment> \<open>\<^verbatim>\<open>s.match(/:(.*?);/)\<close>: group 1 of the leftmost match, \<open>None\<close> for \<^verbatim>\<open>null\<close>.\<close>
  "match_mime [] = None"
| "match_mime (c # cs) =
     (if c = CHR '':''
      then (case upto_semicolon cs of Some g \<Rightarrow> Some g | None \<Rightarrow> match_mime cs)
      else match_mime cs)"

definition dataURLToBlob :: "string \<Rightarrow> error + blob" where
  "dataURLToBlob dataUrl =
     (case split_on CHR '','' dataUrl of
        [] \<Rightarrow> Inl (Error ''TypeError'')
      | a0 # rest \<Rightarrow>
          (case match_mime a0 of
             None \<Rightarrow> Inl (Error ''TypeError'')
           | Some mime \<Rightarrow>
               (case atob (case rest of [] \<Rightarrow> ''undefined'' | a1 # _ \<Rightarrow> a1) of
                  Inl e \<Rightarrow> Inl e
                | Inr bstr \<Rightarrow> Inr \<lparr>blob_data = map of_nat bstr, blob_type = mime\<rparr>)))"

subsection \<open>\<^verbatim>\<open>downloadFile\<close>\<close>

definition downloadFile :: "download_data \<Rightarrow> string \<Rightarrow> unit run" where
  "downloadFile data filename =
     (let blob = (case data of
                    IsBlob b \<Rightarrow> b
                  | RawBytes bs \<Rightarrow> \<lparr>blob_data = bs, blob_type = ''''\<rparr>
                  | Undefined \<Rightarrow> \<lparr>blob_data = map of_char ''undefined'', blob_type = ''''\<rparr>)
      in seq (emit (Download blob filename)) (\<lambda>_.
         setStatus [Text ''File successfully generated and downloaded as **'',
                    Text filename, Text ''**''] StSuccess))"

section \<open>Image size reduction\<close>

text \<open>
  The collaborators of \<^verbatim>\<open>compressImageToTarget\<close>: the file reader, the image decoder
  and the canvas encoder. The canvas is created with the image's size and the image is
  drawn on it once, so what \<^verbatim>\<open>canvas.toDataURL\<close> encodes is the decoded image.
\<close>

record ('file, 'img) image_env =
  readFileAsDataURL :: "'file \<Rightarrow> string"
  loadImage :: "string \<Rightarrow> error + 'img"
  canvasToDataURL :: "'img \<Rightarrow> rat \<Rightarrow> error + string"

definition rejects_target :: "rat option \<Rightarrow> bool" where
  \<comment> \<open>\<^verbatim>\<open>!targetKB || targetKB < 10\<close>\<close>
  "rejects_target t = (case t of None \<Rightarrow> True | Some v \<Rightarrow> v = 0 \<or> v < 10)"

text \<open>
  The \<^verbatim>\<open>while (quality >= 0.05)\<close> loop. It has no bound of its own, so the model takes
  fuel, one unit for each evaluation of the loop condition that enters the body.
\<close>

fun quality_loop ::
  "nat \<Rightarrow> ('file, 'img) image_env \<Rightarrow> 'img \<Rightarrow> rat \<Rightarrow> rat \<Rightarrow> string option
     \<Rightarrow> (rat \<times> string option) run" where
  "quality_loop 0 env canvas targetKB quality result =
     (if quality \<ge> 5 / 100 then ([], Unfinished) else ret (quality, result))"
| "quality_loop (Suc fuel) env canvas targetKB quality result =
     (if quality \<ge> 5 / 100 then
        seq (call (ToDataURL quality) (canvasToDataURL env canvas quality)) (\<lambda>r.
        seq (setStatus [Text ''Processing... Current quality: '',
                        Num (of_int (js_round (quality * 100))), Text ''%. Size: '',
                        Num (of_int (sizeKB_of (length r))), Text '' KB.''] StProcessing) (\<lambda>_.
        if of_int (sizeKB_of (length r)) \<le> targetKB then ret (quality, Some r)
        else quality_loop fuel env canvas targetKB (max (5 / 100) (quality - 5 / 100)) (Some r)))
      else ret (quality, result))"

definition compressImageToTarget ::
  "nat \<Rightarrow> ('file, 'img) image_env \<Rightarrow> 'file list \<Rightarrow> rat option \<Rightarrow> unit run" where
  "compressImageToTarget fuel env files targetKB =
     (case files of
        [] \<Rightarrow> setStatus [Text ''Error: Select an image file!''] StError
      | file # _ \<Rightarrow>
          if rejects_target targetKB
          then setStatus [Text ''Error: Enter a valid target size (minimum 10 KB)!''] StError
          else (case targetKB of
            None \<Rightarrow> setStatus [Text ''Error: Enter a valid target size (minimum 10 KB)!''] StError
          | Some target \<Rightarrow>
            seq (setStatus [Text ''Processing... Target size: '', Num target,
                            Text '' KB. Initiating iterative compression.''] StProcessing) (\<lambda>_.
            try_catch
              (seq (call ReadAsDataURL (Inr (readFileAsDataURL env file))) (\<lambda>src.
               seq (call LoadImage (loadImage env src)) (\<lambda>img.
               seq (emit DrawImage) (\<lambda>_.
               seq (quality_loop fuel env img target (95 / 100) None) (\<lambda>(quality, result).
               case result of
                 None \<Rightarrow> throw (Error ''TypeError'')
               | Some res \<Rightarrow>
                   seq (if of_int (sizeKB_of (length res)) > target
                        then setStatus [Text ''Target size not fully met. Achieved '',
                                        Num (of_int (sizeKB_of (length res))),
                                        Text '' KB (Target: '', Num target,
                                        Text '' KB) at minimum quality. Downloading result.'']
                                       StError
                        else setStatus [Text ''Target met! Achieved '',
                                        Num (of_int (sizeKB_of (length res))), Text '' KB at '',
                                        Num (of_int (js_round (quality * 100))),
                                        Text ''% quality. Downloading result.''] StSuccess) (\<lambda>_.
                   seq (lift (dataURLToBlob res)) (\<lambda>b.
                   downloadFile (IsBlob b) ''CompressedImage.jpg'')))))))
              (\<lambda>e. setStatus [Text ''Compression Failed: '', Text (message e)] StError))))"

section \<open>Document size reduction\<close>

text \<open>
  The new document is the list of its pages in the order \<^verbatim>\<open>addPage\<close> appended them;
  a page has a size and the images drawn on it.
\<close>

record 'jpg drawing =
  img_ref :: 'jpg
  img_x :: rat
  img_y :: rat
  img_width :: rat
  img_height :: rat

record 'jpg pdf_page =
  page_size :: "rat \<times> rat"
  drawings :: "'jpg drawing list"

text \<open>
  The collaborators of \<^verbatim>\<open>performPdfRenderingCompression\<close>: the file, PDF.js (load, page,
  viewport as width and height, render on the shared canvas), the canvas encoder,
  \<^verbatim>\<open>fetch\<close> of a data URL, and PDFLib (embed, the size of the page that \<^verbatim>\<open>addPage()\<close>
  makes when it is given none, and the serializer that \<^verbatim>\<open>save\<close> ends with).
\<close>

record ('file, 'pdf, 'page, 'px, 'jpg) pdf_env =
  arrayBuffer :: "'file \<Rightarrow> error + bytes"
  getDocument :: "bytes \<Rightarrow> error + 'pdf"
  numPages :: "'pdf \<Rightarrow> nat"
  getPage :: "'pdf \<Rightarrow> nat \<Rightarrow> error + 'page"
  getViewport :: "'page \<Rightarrow> rat \<Rightarrow> rat \<times> rat"
  render :: "'page \<Rightarrow> rat \<times> rat \<Rightarrow> error + 'px"
  toDataURL :: "'px \<Rightarrow> rat \<Rightarrow> error + string"
  fetchArrayBuffer :: "string \<Rightarrow> error + bytes"
  embedJpg :: "bytes \<Rightarrow> error + 'jpg"
  defaultPageSize :: "rat \<times> rat"
  serialize :: "'jpg pdf_page list \<Rightarrow> error + bytes"

definition addPage :: "rat \<times> rat \<Rightarrow> 'jpg pdf_page" where
  \<comment> \<open>\<^verbatim>\<open>pdfDocLib.addPage([width, height])\<close>: the new, empty page (it goes to the end of the document).\<close>
  "addPage dims = \<lparr>page_size = dims, drawings = []\<rparr>"

definition drawImage ::
  "'jpg pdf_page \<Rightarrow> 'jpg \<Rightarrow> rat \<Rightarrow> rat \<Rightarrow> rat \<Rightarrow> rat \<Rightarrow> 'jpg pdf_page" where
  \<comment> \<open>\<^verbatim>\<open>pdfPage.drawImage(image, {x, y, width, height})\<close>\<close>
  "drawImage pdfPage jpegImage x y w h =
     pdfPage\<lparr>drawings := drawings pdfPage
                @ [\<lparr>img_ref = jpegImage, img_x = x, img_y = y, img_width = w, img_height = h\<rparr>]\<rparr>"

definition save ::
  "('file, 'pdf, 'page, 'px, 'jpg) pdf_env \<Rightarrow> 'jpg pdf_page list \<Rightarrow> bytes run" where
  \<comment> \<open>\<^verbatim>\<open>pdfDocLib.save()\<close>, called without options: pdf-lib's \<^verbatim>\<open>addDefaultPage\<close> is then on,
      and a document that has no page gets one blank page before it is serialized.\<close>
  "save env doc =
     call Save (serialize env (if doc = [] then [addPage (defaultPageSize env)] else doc))"

function page_loop ::
  "('file, 'pdf, 'page, 'px, 'jpg) pdf_env \<Rightarrow> 'pdf \<Rightarrow> rat \<Rightarrow> nat \<Rightarrow> nat
     \<Rightarrow> 'jpg pdf_page list \<Rightarrow> 'jpg pdf_page list run" where
  "page_loop env pdf quality totalPages i doc =
     (if i \<le> totalPages then
        seq (setStatus [Text ''Processing page '', Num (of_nat i), Text '' of '',
                        Num (of_nat totalPages), Text ''... Rendering at '',
                        Percent quality, Text ''% quality.'']
                       StProcessing) (\<lambda>_.
        seq (call (GetPage i) (getPage env pdf i)) (\<lambda>page.
        seq (call (Render i) (render env page (getViewport env page 2))) (\<lambda>canvas.
        seq (call (ToDataURL quality) (toDataURL env canvas quality)) (\<lambda>dataUrl.
        seq (call Fetch (fetchArrayBuffer env dataUrl)) (\<lambda>jpegBytes.
        seq (call EmbedJpg (embedJpg env jpegBytes)) (\<lambda>jpegImage.
        seq (emit AddPage) (\<lambda>_.
        seq (emit DrawPageImage) (\<lambda>_.
        page_loop env pdf quality totalPages (i + 1)
          (doc @ [drawImage (addPage (getViewport env page 2)) jpegImage 0 0
                    (fst (getViewport env page 2)) (snd (getViewport env page 2))])))))))))
      else ret doc)"
  by pat_completeness auto
termination
  by (relation "measure (\<lambda>(env, pdf, quality, totalPages, i, doc). totalPages + 1 - i)") auto

definition performPdfRenderingCompression ::
  "('file, 'pdf, 'page, 'px, 'jpg) pdf_env \<Rightarrow> 'file \<Rightarrow> rat \<Rightarrow> bytes run" where
  "performPdfRenderingCompression env file quality =
     seq (call ArrayBuffer (arrayBuffer env file)) (\<lambda>buffer.
     seq (emit CreateDocument) (\<lambda>_.
     seq (call GetDocument (getDocument env buffer)) (\<lambda>pdf.
     seq (page_loop env pdf quality (numPages env pdf) 1 []) (\<lambda>doc.
     save env doc))))"

definition compressPDFByRenderingQuality ::
  "('file, 'pdf, 'page, 'px, 'jpg) pdf_env \<Rightarrow> 'file list \<Rightarrow> rat \<Rightarrow> unit run" where
  "compressPDFByRenderingQuality env files quality =
     (case files of
        [] \<Rightarrow> setStatus [Text ''Error: Select a PDF file!''] StError
      | file # _ \<Rightarrow>
          seq (setStatus [Text ''Initiating PDF compression at '', Percent quality,
                          Text ''% rendering quality...''] StProcessing) (\<lambda>_.
          try_catch
            (seq (performPdfRenderingCompression env file quality) (\<lambda>compressedBytes.
             seq (downloadFile (RawBytes compressedBytes) ''compressed_rendered_quality.pdf'') (\<lambda>_.
             setStatus [Text ''Compression complete! Final size: '',
                        Num (of_int (sizeKB_of (length compressedBytes))), Text '' KB at '',
                        Percent quality, Text ''% quality.'']
                       StSuccess)))
            (\<lambda>e. seq (emit (ConsoleError ''Compression Failed:'' e)) (\<lambda>_.
                  setStatus [Text ''PDF compression failed. Error: '', Text (message e)]
                            StError))))"

text \<open>
  The \<^verbatim>\<open>for (const quality of qualities)\<close> loop of \<^verbatim>\<open>compressPDFByTargetRendering\<close>
  either returns from the function inside the body or runs off the end of the list with
  the last \<^verbatim>\<open>compressedBytes\<close> and \<^verbatim>\<open>sizeKB\<close> (both undefined before the first pass).
\<close>

datatype flow = Returned | FellThrough "(bytes \<times> int) option"

fun candidate_loop ::
  "('file, 'pdf, 'page, 'px, 'jpg) pdf_env \<Rightarrow> 'file \<Rightarrow> int \<Rightarrow> rat list
     \<Rightarrow> (bytes \<times> int) option \<Rightarrow> flow run" where
  "candidate_loop env file targetKB [] prev = ret (FellThrough prev)"
| "candidate_loop env file targetKB (quality # rest) prev =
     seq (setStatus [Text ''Attempting compression at '',
                     Num (of_int (js_round (quality * 100))), Text ''% quality...'']
                    StProcessing) (\<lambda>_.
     seq (performPdfRenderingCompression env file quality) (\<lambda>compressedBytes.
     if sizeKB_of (length compressedBytes) \<le> targetKB then
       seq (setStatus [Text ''Target met at '', Num (of_int (js_round (quality * 100))),
                       Text ''% quality! Compressed size: '',
                       Num (of_int (sizeKB_of (length compressedBytes))),
                       Text '' KB. Downloading file.''] StSuccess) (\<lambda>_.
       seq (downloadFile (RawBytes compressedBytes) ''compressed_target_success.pdf'') (\<lambda>_.
       ret Returned))
     else
       seq (setStatus [Text ''Size at '', Num (of_int (js_round (quality * 100))),
                       Text ''% quality: '',
                       Num (of_int (sizeKB_of (length compressedBytes))),
                       Text '' KB (Still above target). Moving to next level.'']
                      StProcessing) (\<lambda>_.
       candidate_loop env file targetKB rest
         (Some (compressedBytes, sizeKB_of (length compressedBytes))))))"

definition qualities :: "rat list" where
  "qualities = [9 / 10, 7 / 10, 5 / 10, 3 / 10]"

definition compressPDFByTargetRendering ::
  "('file, 'pdf, 'page, 'px, 'jpg) pdf_env \<Rightarrow> 'file list \<Rightarrow> int option \<Rightarrow> unit run" where
  "compressPDFByTargetRendering env files targetKB =
     (case files of
        [] \<Rightarrow> setStatus [Text ''Error: Select a PDF file!''] StError
      | file # _ \<Rightarrow>
          if rejects_target (map_option of_int targetKB)
          then setStatus [Text ''Error: Enter a valid target size (minimum 10 KB)''] StError
          else (case targetKB of
            None \<Rightarrow> setStatus [Text ''Error: Enter a valid target size (minimum 10 KB)''] StError
          | Some target \<Rightarrow>
            seq (setStatus [Text ''Initiating iterative compression attempt. Target KB: '',
                            Num (of_int target), Text ''.''] StProcessing) (\<lambda>_.
            try_catch
              (seq (candidate_loop env file target qualities None) (\<lambda>fl.
               case fl of
                 Returned \<Rightarrow> ret ()
               | FellThrough prev \<Rightarrow>
                   seq (setStatus [Text ''Compression failed to reach the target KB ('',
                                   Num (of_int target), Text '' KB). Lowest achieved size was '',
                                   (case prev of None \<Rightarrow> Text ''undefined''
                                    | Some (b, sizeKB) \<Rightarrow> Num (of_int sizeKB)),
                                   Text '' KB at 30% rendering quality. Downloading this result.'']
                                  StError) (\<lambda>_.
                   downloadFile (case prev of None \<Rightarrow> Undefined | Some (b, sizeKB) \<Rightarrow> RawBytes b)
                                ''compressed_target_attempt.pdf'')))
              (\<lambda>e. seq (emit (ConsoleError ''Target Compression Failed:'' e)) (\<lambda>_.
                    setStatus [Text ''PDF compression failed. Error: '', Text (message e)]
                              StError)))))"

section \<open>Observations on a trace, and sample collaborators\<close>

text \<open>The qualities handed to the encoder, in the order of the calls.\<close>

fun examined :: "event list \<Rightarrow> rat list" where
  "examined [] = []"
| "examined (ToDataURL q # evs) = q # examined evs"
| "examined (ev # evs) = examined evs"

text \<open>
  A decoder and encoder for an image whose JPEG data URL is 20023 characters long at
  quality 0 and grows by 4000 characters for every hundredth of quality.
\<close>

definition heavy_image_env :: "(unit, unit) image_env" where
  "heavy_image_env =
     \<lparr>readFileAsDataURL = (\<lambda>_. ''data:image/png;base64,AAAA''),
      loadImage = (\<lambda>_. Inr ()),
      canvasToDataURL = (\<lambda>_ q. Inr (''data:image/jpeg;base64,''
                                   @ replicate (20000 + 4 * nat \<lfloor>q * 100000\<rfloor>) CHR ''A''))\<rparr>"

text \<open>
  Collaborators for a document given by its number of pages: every page is 612 by 792,
  the data URL of a page at quality \<open>q\<close> has a payload of \<open>4 * \<lfloor>10000 q\<rfloor>\<close> characters,
  and a serialized document is a header of 900 bytes followed, for each page, by 50
  bytes and the bytes of the images drawn on it.
\<close>

definition sample_pdf_env :: "(nat, nat, nat, nat, bytes) pdf_env" where
  "sample_pdf_env =
     \<lparr>arrayBuffer = (\<lambda>n. Inr (replicate n 37)),
      getDocument = (\<lambda>buffer. Inr (length buffer)),
      numPages = (\<lambda>pdf. pdf),
      getPage = (\<lambda>pdf i. if 1 \<le> i \<and> i \<le> pdf then Inr i
                          else Inl (Error ''Invalid page request'')),
      getViewport = (\<lambda>page scale. (scale * 612, scale * 792)),
      render = (\<lambda>page viewport. Inr page),
      toDataURL = (\<lambda>canvas q. Inr (''data:image/jpeg;base64,''
                                   @ replicate (4 * nat \<lfloor>q * 10000\<rfloor>) CHR ''A'')),
      fetchArrayBuffer = (\<lambda>url. Inr (replicate (3 * ((length url - 23) div 4)) 0)),
      embedJpg = (\<lambda>jpegBytes. Inr jpegBytes),
      defaultPageSize = (612, 792),
      serialize = (\<lambda>doc. Inr (replicate 900 0
                     @ concat (map (\<lambda>p. replicate 50 0 @ concat (map img_ref (drawings p)))
                                 doc)))\<rparr>"

text \<open>
  What the specification asks of a fixed-quality reduction, in its words: every page is
  rasterized at the fixed render scale (2.0) and encoded at the quality, and page \<open>N\<close> of
  the new document is a single full-page image of page \<open>N\<close>'s rendered content, the
  page's width and height being those of the rasterization viewport.
  \<open>page_image\<close> is the encoded image of source page \<open>i\<close> with its viewport;
  \<open>full_page_image\<close> says that a page of the given size carries exactly that image, drawn
  from the origin over the whole page.
\<close>

definition page_image ::
  "('file, 'pdf, 'page, 'px, 'jpg) pdf_env \<Rightarrow> 'pdf \<Rightarrow> rat \<Rightarrow> nat
     \<Rightarrow> error + ('jpg \<times> (rat \<times> rat))" where
  "page_image env pdf quality i =
     (case getPage env pdf i of Inl e \<Rightarrow> Inl e | Inr page \<Rightarrow>
      case render env page (getViewport env page 2) of Inl e \<Rightarrow> Inl e | Inr canvas \<Rightarrow>
      case toDataURL env canvas quality of Inl e \<Rightarrow> Inl e | Inr dataUrl \<Rightarrow>
      case fetchArrayBuffer env dataUrl of Inl e \<Rightarrow> Inl e | Inr jpegBytes \<Rightarrow>
      case embedJpg env jpegBytes of Inl e \<Rightarrow> Inl e | Inr jpegImage \<Rightarrow>
      Inr (jpegImage, getViewport env page 2))"

definition full_page_image :: "'jpg \<Rightarrow> rat \<times> rat \<Rightarrow> 'jpg pdf_page \<Rightarrow> bool" where
  "full_page_image jpg dims p =
     (page_size p = dims \<and>
      (case drawings p of
         [d] \<Rightarrow> img_ref d = jpg \<and> img_x d = 0 \<and> img_y d = 0
                \<and> img_width d = fst dims \<and> img_height d = snd dims
       | _ \<Rightarrow> False))"

definition is_page_of ::
  "('file, 'pdf, 'page, 'px, 'jpg) pdf_env \<Rightarrow> 'pdf \<Rightarrow> rat \<Rightarrow> nat \<Rightarrow> 'jpg pdf_page \<Rightarrow> bool" where
  "is_page_of env pdf quality i p =
     (case page_image env pdf quality i of
        Inl e \<Rightarrow> False
      | Inr (jpg, dims) \<Rightarrow> full_page_image jpg dims p)"

text \<open>What a run hands to the user, what a build may record, and the status lines.\<close>

fun downloads :: "event list \<Rightarrow> (blob \<times> string) list" where
  "downloads [] = []"
| "downloads (Download b name # evs) = (b, name) # downloads evs"
| "downloads (ev # evs) = downloads evs"

fun page_event :: "rat \<Rightarrow> event \<Rightarrow> bool" where
  "page_event q (SetStatus msg ty) = (ty = StProcessing)"
| "page_event q (GetPage i) = True"
| "page_event q (Render i) = True"
| "page_event q (ToDataURL q') = (q' = q)"
| "page_event q Fetch = True"
| "page_event q EmbedJpg = True"
| "page_event q AddPage = True"
| "page_event q DrawPageImage = True"
| "page_event q ev = False"

abbreviation initiating :: "int \<Rightarrow> event" where
  "initiating target \<equiv>
     SetStatus [Text ''Initiating iterative compression attempt. Target KB: '',
                Num (of_int target), Text ''.''] StProcessing"

abbreviation attempting :: "rat \<Rightarrow> event" where
  "attempting pct \<equiv>
     SetStatus [Text ''Attempting compression at '', Num pct, Text ''% quality...'']
               StProcessing"

abbreviation still_above :: "rat \<Rightarrow> bytes \<Rightarrow> event" where
  "still_above pct b \<equiv>
     SetStatus [Text ''Size at '', Num pct, Text ''% quality: '',
                Num (of_int (sizeKB_of (length b))),
                Text '' KB (Still above target). Moving to next level.''] StProcessing"

abbreviation target_met :: "rat \<Rightarrow> bytes \<Rightarrow> event" where
  "target_met pct b \<equiv>
     SetStatus [Text ''Target met at '', Num pct, Text ''% quality! Compressed size: '',
                Num (of_int (sizeKB_of (length b))), Text '' KB. Downloading file.'']
               StSuccess"

abbreviation not_reached :: "int \<Rightarrow> bytes \<Rightarrow> event" where
  "not_reached target b \<equiv>
     SetStatus [Text ''Compression failed to reach the target KB ('', Num (of_int target),
                Text '' KB). Lowest achieved size was '', Num (of_int (sizeKB_of (length b))),
                Text '' KB at 30% rendering quality. Downloading this result.''] StError"

abbreviation downloaded :: "string \<Rightarrow> event" where
  "downloaded filename \<equiv>
     SetStatus [Text ''File successfully generated and downloaded as **'', Text filename,
                Text ''**''] StSuccess"

abbreviation pdf_failed :: "error \<Rightarrow> event" where
  "pdf_failed e \<equiv>
     SetStatus [Text ''PDF compression failed. Error: '', Text (message e)] StError"

text \<open>The same collaborators with an encoder that fails on page 2 at quality 0.7.\<close>

definition broken_pdf_env :: "(nat, nat, nat, nat, bytes) pdf_env" where
  "broken_pdf_env =
     sample_pdf_env
       \<lparr>toDataURL := (\<lambda>canvas q. if canvas = 2 \<and> q = 7 / 10
                                   then Inl (Error ''encoder failed'')
                                   else toDataURL sample_pdf_env canvas q)\<rparr>"

abbreviation initiating_fixed :: "rat \<Rightarrow> event" where
  "initiating_fixed quality \<equiv>
     SetStatus [Text ''Initiating PDF compression at '', Percent quality,
                Text ''% rendering quality...''] StProcessing"

section \<open>Basic facts\<close>

subsection \<open>Sequencing\<close>

lemma seq_Done [simp]: "seq (l, Done v) f = (l @ fst (f v), snd (f v))"
  by (simp add: seq_def split: prod.splits)

lemma seq_Raised [simp]: "seq (l, Raised e) f = (l, Raised e)"
  by (simp add: seq_def)

lemma seq_Unfinished [simp]: "seq (l, Unfinished) f = (l, Unfinished)"
  by (simp add: seq_def)

lemma try_catch_Done [simp]: "try_catch (l, Done v) h = (l, Done v)"
  by (simp add: try_catch_def)

lemma try_catch_Raised [simp]: "try_catch (l, Raised e) h = (l @ fst (h e), snd (h e))"
  by (simp add: try_catch_def split: prod.splits)

lemma try_catch_Unfinished [simp]: "try_catch (l, Unfinished) h = (l, Unfinished)"
  by (simp add: try_catch_def)

lemma fst_seq: "fst (seq m f) = fst m @ (case snd m of Done v \<Rightarrow> fst (f v) | _ \<Rightarrow> [])"
  by (cases m; cases "snd m") auto

lemma snd_seq:
  "snd (seq m f) =
     (case snd m of Done v \<Rightarrow> snd (f v) | Raised e \<Rightarrow> Raised e | Unfinished \<Rightarrow> Unfinished)"
  by (cases m; cases "snd m") auto


lemmas run_simps = ret_def throw_def emit_def call_def lift_def setStatus_def

subsection \<open>Rounding\<close>

lemma floor_rat_numeral_div [simp]:
  "\<lfloor>(numeral a / numeral b :: rat)\<rfloor> = numeral a div numeral b"
  using floor_divide_of_int_eq[of "numeral a" "numeral b", where ?'a = rat] by simp

lemma sizeKB_of_div: "sizeKB_of n = (int n + 512) div 1024"
proof -
  have eq: "(of_nat n / 1024 + 1 / 2 :: rat) = of_int (int n + 512) / of_int 1024"
    by simp
  have "sizeKB_of n = \<lfloor>(of_nat n / 1024 + 1 / 2 :: rat)\<rfloor>"
    by (simp add: sizeKB_of_def js_round_def)
  also have "\<dots> = \<lfloor>(of_int (int n + 512) / of_int 1024 :: rat)\<rfloor>"
    by (simp only: eq)
  also have "\<dots> = (int n + 512) div 1024"
    by (rule floor_divide_of_int_eq)
  finally show ?thesis .
qed

lemma sizeKB_of_mono: "m \<le> n \<Longrightarrow> sizeKB_of m \<le> sizeKB_of n"
  by (simp add: sizeKB_of_div zdiv_mono1)

subsection \<open>The quality loop\<close>

lemma examined_append [simp]: "examined (xs @ ys) = examined xs @ examined ys"
  by (induction xs rule: examined.induct) simp_all

lemma fst_quality_loop_result:
  "fst (quality_loop fuel env img t q r) = fst (quality_loop fuel env img t q r')"
  by (cases fuel) (simp_all add: run_simps)

lemma quality_loop_never_exits:
  assumes big: "\<And>q. \<exists>r. canvasToDataURL env img q = Inr r \<and> targetKB < of_int (sizeKB_of (length r))"
  shows "5 / 100 \<le> quality \<Longrightarrow> snd (quality_loop fuel env img targetKB quality result) = Unfinished"
proof (induction fuel arbitrary: quality result)
  case 0
  then show ?case by simp
next
  case (Suc fuel)
  from big obtain r where r: "canvasToDataURL env img quality = Inr r"
    "targetKB < of_int (sizeKB_of (length r))" by blast
  have "snd (quality_loop fuel env img targetKB (max (5 / 100) (quality - 5 / 100)) (Some r)) = Unfinished"
    by (rule Suc.IH) simp
  with r Suc.prems show ?case
    by (simp add: run_simps snd_seq)
qed

lemma examined_quality_loop_step:
  assumes "5 / 100 \<le> q" and "canvasToDataURL env img q = Inr s"
    and "t < of_int (sizeKB_of (length s))"
  shows "examined (fst (quality_loop (Suc fuel) env img t q r))
           = q # examined (fst (quality_loop fuel env img t (max (5 / 100) (q - 5 / 100)) None))"
  using assms fst_quality_loop_result[of fuel env img t "max (5 / 100) (q - 5 / 100)" "Some s" None]
  by (simp add: run_simps)

subsection \<open>An image that stays above 10 KB at every quality\<close>

lemma heavy_encode:
  "canvasToDataURL heavy_image_env img q
     = Inr (''data:image/jpeg;base64,'' @ replicate (20000 + 4 * nat \<lfloor>q * 100000\<rfloor>) CHR ''A'')"
  by (simp add: heavy_image_env_def)

lemma heavy_size:
  "(10::rat) < of_int (sizeKB_of (length (''data:image/jpeg;base64,''
       @ replicate (20000 + 4 * nat \<lfloor>q * 100000\<rfloor>) CHR ''A'')))"
proof -
  have "sizeKB_of 20023 \<le> sizeKB_of (23 + (20000 + 4 * nat \<lfloor>q * 100000\<rfloor>))"
    by (rule sizeKB_of_mono) simp
  then have "20 \<le> sizeKB_of (23 + (20000 + 4 * nat \<lfloor>q * 100000\<rfloor>))"
    by (simp add: sizeKB_of_div)
  then show ?thesis by simp
qed

lemma heavy_big:
  "\<exists>r. canvasToDataURL heavy_image_env img q = Inr r \<and> (10::rat) < of_int (sizeKB_of (length r))"
  using heavy_size[of q] by (simp add: heavy_encode)

lemma heavy_step:
  "5 / 100 \<le> q \<Longrightarrow>
   examined (fst (quality_loop (Suc fuel) heavy_image_env () 10 q r))
     = q # examined (fst (quality_loop fuel heavy_image_env () 10 (max (5 / 100) (q - 5 / 100)) None))"
  by (rule examined_quality_loop_step[OF _ heavy_encode heavy_size])

lemma heavy_step_numeral:
  "5 / 100 \<le> q \<Longrightarrow>
   examined (fst (quality_loop (numeral k) heavy_image_env () 10 q r))
     = q # examined (fst (quality_loop (pred_numeral k) heavy_image_env () 10
                            (max (5 / 100) (q - 5 / 100)) None))"
  by (simp only: numeral_eq_Suc heavy_step)

lemma heavy_trace:
  "examined (fst (quality_loop 20 heavy_image_env () 10 (95 / 100) None))
     = [19/20, 9/10, 17/20, 4/5, 3/4, 7/10, 13/20, 3/5, 11/20, 1/2, 9/20, 2/5, 7/20, 3/10, 1/4, 1/5, 3/20, 1/10, 1/20, 1/20]"
  by (simp add: heavy_step_numeral heavy_step del: quality_loop.simps(2))

lemma compressImage_unfinished:
  assumes "snd (quality_loop fuel env img t (95 / 100) None) = Unfinished"
    and "loadImage env (readFileAsDataURL env file) = Inr img" and "\<not> rejects_target (Some t)"
  shows "compressImageToTarget fuel env (file # files) (Some t)
           = ([SetStatus [Text ''Processing... Target size: '', Num t,
                          Text '' KB. Initiating iterative compression.''] StProcessing,
               ReadAsDataURL, LoadImage, DrawImage]
              @ fst (quality_loop fuel env img t (95 / 100) None), Unfinished)"
  using assms
  by (cases "quality_loop fuel env img t (95 / 100) None")
     (simp add: compressImageToTarget_def run_simps)

subsection \<open>Base64\<close>

lemma those_replicate_Some: "those (replicate n (Some v)) = Some (replicate n v)"
  by (induction n) simp_all

lemma b64_index_A: "b64_index CHR ''A'' = Some 0"
  by (simp add: b64_index_def)

lemma b64_groups_zeros: "b64_groups (replicate (4 * k) 0) = replicate (3 * k) 0"
proof (induction k)
  case 0
  show ?case by simp
next
  case (Suc k)
  have "replicate (4 * Suc k) (0::nat) = 0 # 0 # 0 # 0 # replicate (4 * k) 0"
    by (simp add: numeral_eq_Suc)
  moreover have "replicate (3 * Suc k) (0::nat) = 0 # 0 # 0 # replicate (3 * k) 0"
    by (simp add: numeral_eq_Suc)
  ultimately show ?case using Suc.IH by simp
qed

lemma strip_padding_As: "strip_padding (replicate n CHR ''A'') = replicate n CHR ''A''"
proof -
  have "drop m (replicate n CHR ''A'') \<noteq> ''==''" for m
  proof
    assume "drop m (replicate n CHR ''A'') = ''==''"
    then have "CHR ''='' \<in> set (drop m (replicate n CHR ''A''))" by simp
    then have "CHR ''='' \<in> set (replicate n CHR ''A'')" by (rule in_set_dropD)
    then show False by simp
  qed
  moreover have "drop m (replicate n CHR ''A'') \<noteq> ''=''" for m
  proof
    assume "drop m (replicate n CHR ''A'') = ''=''"
    then have "CHR ''='' \<in> set (drop m (replicate n CHR ''A''))" by simp
    then have "CHR ''='' \<in> set (replicate n CHR ''A'')" by (rule in_set_dropD)
    then show False by simp
  qed
  ultimately show ?thesis
    unfolding strip_padding_def by (simp only: if_False simp_thms length_replicate)
qed

lemma atob_As: "atob (replicate (4 * k) CHR ''A'') = Inr (replicate (3 * k) 0)"
proof -
  have "filter (\<lambda>c. \<not> ascii_whitespace c) (replicate (4 * k) CHR ''A'') = replicate (4 * k) CHR ''A''"
    by (simp add: ascii_whitespace_def)
  then show ?thesis
    by (simp add: atob_def strip_padding_As b64_index_A those_replicate_Some b64_groups_zeros Let_def)
qed

lemma split_on_no_sep: "a \<noteq> c \<Longrightarrow> split_on c (replicate n a) = [replicate n a]"
  by (induction n) simp_all

lemma dataURLToBlob_As:
  "dataURLToBlob (''data:image/jpeg;base64,'' @ replicate (4 * k) CHR ''A'')
     = Inr \<lparr>blob_data = replicate (3 * k) 0, blob_type = ''image/jpeg''\<rparr>"
  by (simp add: dataURLToBlob_def split_on_no_sep atob_As)

subsection \<open>Builds\<close>

lemma seq_eq_Done_iff:
  "seq m f = (l, Done y) \<longleftrightarrow> (\<exists>l1 v l2. m = (l1, Done v) \<and> f v = (l2, Done y) \<and> l = l1 @ l2)"
  by (cases m; cases "snd m"; cases "f (case snd m of Done v \<Rightarrow> v)") auto

lemma call_eq_Done_iff: "call ev r = (l, Done v) \<longleftrightarrow> l = [ev] \<and> r = Inr v"
  by (cases r) (auto simp: call_def)

lemma emit_eq_iff: "emit ev = (l, r) \<longleftrightarrow> l = [ev] \<and> r = Done ()"
  by (auto simp: emit_def)

lemma ret_eq_iff: "ret v = (l, r) \<longleftrightarrow> l = [] \<and> r = Done v"
  by (auto simp: ret_def)

declare page_loop.simps [simp del]

declare candidate_loop.simps [simp del]

lemma page_loop_pages:
  "page_loop env pdf quality totalPages i doc = (evs, Done doc') \<Longrightarrow>
   \<exists>new. doc' = doc @ new \<and> list_all2 (is_page_of env pdf quality) [i ..< Suc totalPages] new"
proof (induction env pdf quality totalPages i doc arbitrary: evs rule: page_loop.induct)
  case (1 env pdf quality totalPages i doc)
  show ?case
  proof (cases "i \<le> totalPages")
    case False
    with "1.prems" show ?thesis
      by (simp add: page_loop.simps[of env pdf quality totalPages i doc] ret_eq_iff)
  next
    case True
    from "1.prems" True obtain page canvas dataUrl jpegBytes jpegImage evs' where
      steps: "getPage env pdf i = Inr page"
        "render env page (getViewport env page 2) = Inr canvas"
        "toDataURL env canvas quality = Inr dataUrl"
        "fetchArrayBuffer env dataUrl = Inr jpegBytes"
        "embedJpg env jpegBytes = Inr jpegImage"
      and rest: "page_loop env pdf quality totalPages (i + 1)
                   (doc @ [drawImage (addPage (getViewport env page 2)) jpegImage 0 0
                             (fst (getViewport env page 2)) (snd (getViewport env page 2))])
                 = (evs', Done doc')"
      by (subst (asm) page_loop.simps)
         (auto simp: seq_eq_Done_iff call_eq_Done_iff emit_eq_iff setStatus_def)
    from "1.IH"[OF True rest] obtain new where
      new: "doc' = (doc @ [drawImage (addPage (getViewport env page 2)) jpegImage 0 0
                             (fst (getViewport env page 2)) (snd (getViewport env page 2))]) @ new"
        "list_all2 (is_page_of env pdf quality) [i + 1 ..< Suc totalPages] new"
      by blast
    have here: "is_page_of env pdf quality i
                  (drawImage (addPage (getViewport env page 2)) jpegImage 0 0
                     (fst (getViewport env page 2)) (snd (getViewport env page 2)))"
      by (simp add: is_page_of_def page_image_def steps full_page_image_def drawImage_def
          addPage_def)
    have "[i ..< Suc totalPages] = i # [i + 1 ..< Suc totalPages]"
      using True by (simp add: upt_conv_Cons)
    with new here show ?thesis by auto
  qed
qed

subsection \<open>The trace of a build\<close>

lemma downloads_append [simp]: "downloads (xs @ ys) = downloads xs @ downloads ys"
  by (induction xs rule: downloads.induct) simp_all

lemma page_loop_events: "list_all (page_event quality) (fst (page_loop env pdf quality totalPages i doc))"
proof (induction env pdf quality totalPages i doc rule: page_loop.induct)
  case (1 env pdf quality totalPages i doc)
  show ?case
  proof (cases "i \<le> totalPages")
    case False
    then show ?thesis
      by (simp add: page_loop.simps[of env pdf quality totalPages i doc] ret_def)
  next
    case True
    note IH = "1.IH"[OF True]
    show ?thesis
      using IH
      by (subst page_loop.simps)
         (simp add: True fst_seq run_simps split: outcome.splits sum.splits)
  qed
qed

lemma build_events:
  "list_all (\<lambda>ev. ev \<in> {ArrayBuffer, CreateDocument, GetDocument, Save} \<or> page_event quality ev)
     (fst (performPdfRenderingCompression env file quality))"
  using page_loop_events[of quality env _ _ 1 "[]"]
  by (auto simp add: performPdfRenderingCompression_def save_def fst_seq run_simps list_all_iff
      split: outcome.splits sum.splits)

lemma downloads_page_events:
  "list_all (\<lambda>ev. ev \<in> {ArrayBuffer, CreateDocument, GetDocument, Save} \<or> page_event q ev) evs
     \<Longrightarrow> downloads evs = []"
  by (induction evs rule: downloads.induct) auto

lemma examined_page_events:
  "list_all (\<lambda>ev. ev \<in> {ArrayBuffer, CreateDocument, GetDocument, Save} \<or> page_event q ev) evs
     \<Longrightarrow> set (examined evs) \<subseteq> {q}"
  by (induction evs rule: examined.induct) auto

lemma build_downloads [simp]:
  "downloads (fst (performPdfRenderingCompression env file quality)) = []"
  by (rule downloads_page_events[OF build_events])

lemma build_examined:
  "set (examined (fst (performPdfRenderingCompression env file quality))) \<subseteq> {quality}"
  by (rule examined_page_events[OF build_events])

subsection \<open>One pass of the candidate loop\<close>

lemma js_round_of_int [simp]: "js_round (of_int k) = k"
  unfolding js_round_def by (rule floor_unique) simp_all

lemma js_round_numeral [simp]: "js_round (numeral n) = numeral n"
  using js_round_of_int[of "numeral n"] by simp

lemma candidate_loop_accept:
  assumes "snd (performPdfRenderingCompression env file q) = Done b"
    and "sizeKB_of (length b) \<le> target"
  shows "candidate_loop env file target (q # rest) prev
           = ([attempting (of_int (js_round (q * 100)))]
              @ fst (performPdfRenderingCompression env file q)
              @ [target_met (of_int (js_round (q * 100))) b,
                 Download \<lparr>blob_data = b, blob_type = ''''\<rparr> ''compressed_target_success.pdf'',
                 downloaded ''compressed_target_success.pdf''],
              Done Returned)"
  using assms
  by (cases "performPdfRenderingCompression env file q")
     (simp add: candidate_loop.simps run_simps downloadFile_def)

lemma candidate_loop_reject:
  assumes "snd (performPdfRenderingCompression env file q) = Done b"
    and "target < sizeKB_of (length b)"
  shows "candidate_loop env file target (q # rest) prev
           = ([attempting (of_int (js_round (q * 100)))]
              @ fst (performPdfRenderingCompression env file q)
              @ [still_above (of_int (js_round (q * 100))) b]
              @ fst (candidate_loop env file target rest (Some (b, sizeKB_of (length b)))),
              snd (candidate_loop env file target rest (Some (b, sizeKB_of (length b)))))"
  using assms
  by (cases "performPdfRenderingCompression env file q")
     (simp add: candidate_loop.simps run_simps)

lemma candidate_loop_raise:
  assumes "snd (performPdfRenderingCompression env file q) = Raised e"
  shows "candidate_loop env file target (q # rest) prev
           = ([attempting (of_int (js_round (q * 100)))]
              @ fst (performPdfRenderingCompression env file q), Raised e)"
  using assms
  by (cases "performPdfRenderingCompression env file q")
     (simp add: candidate_loop.simps run_simps)

subsection \<open>The sample document\<close>

lemma sample_build:
  "snd (performPdfRenderingCompression sample_pdf_env 2 q)
     = Done (replicate (1000 + 6 * nat \<lfloor>q * 10000\<rfloor>) 0)"
proof -
  have "replicate 900 (0::byte) @ replicate 50 0 @ replicate (3 * n) 0
          @ replicate 50 0 @ replicate (3 * n) 0
          = replicate (1000 + 6 * n) 0" for n
    by (simp add: replicate_add[symmetric])
  then show ?thesis
    by (simp add: performPdfRenderingCompression_def page_loop.simps sample_pdf_env_def
        run_simps save_def drawImage_def addPage_def)
qed

lemma exhausted_run:
  assumes valid: "10 \<le> target"
    and b9: "snd (performPdfRenderingCompression env file (9 / 10)) = Done b9"
    and r9: "target < sizeKB_of (length b9)"
    and b7: "snd (performPdfRenderingCompression env file (7 / 10)) = Done b7"
    and r7: "target < sizeKB_of (length b7)"
    and b5: "snd (performPdfRenderingCompression env file (5 / 10)) = Done b5"
    and r5: "target < sizeKB_of (length b5)"
    and b3: "snd (performPdfRenderingCompression env file (3 / 10)) = Done b3"
    and r3: "target < sizeKB_of (length b3)"
  shows "compressPDFByTargetRendering env (file # files) (Some target)
           = ([initiating target, attempting 90]
              @ fst (performPdfRenderingCompression env file (9 / 10))
              @ [still_above 90 b9, attempting 70]
              @ fst (performPdfRenderingCompression env file (7 / 10))
              @ [still_above 70 b7, attempting 50]
              @ fst (performPdfRenderingCompression env file (5 / 10))
              @ [still_above 50 b5, attempting 30]
              @ fst (performPdfRenderingCompression env file (3 / 10))
              @ [still_above 30 b3, not_reached target b3,
                 Download \<lparr>blob_data = b3, blob_type = ''''\<rparr> ''compressed_target_attempt.pdf'',
                 downloaded ''compressed_target_attempt.pdf''],
              Done ())"
proof -
  have loop: "candidate_loop env file target qualities None
           = ([attempting 90]
              @ fst (performPdfRenderingCompression env file (9 / 10))
              @ [still_above 90 b9, attempting 70]
              @ fst (performPdfRenderingCompression env file (7 / 10))
              @ [still_above 70 b7, attempting 50]
              @ fst (performPdfRenderingCompression env file (5 / 10))
              @ [still_above 50 b5, attempting 30]
              @ fst (performPdfRenderingCompression env file (3 / 10))
              @ [still_above 30 b3],
              Done (FellThrough (Some (b3, sizeKB_of (length b3)))))"
    unfolding qualities_def
    by (simp add: candidate_loop_reject[OF b9 r9, simplified]
        candidate_loop_reject[OF b7 r7, simplified] candidate_loop_reject[OF b5 r5, simplified]
        candidate_loop_reject[OF b3 r3, simplified] candidate_loop.simps(1) ret_def)
  have run: "compressPDFByTargetRendering env (file # files) (Some target)
           = ([initiating target, attempting 90]
              @ fst (performPdfRenderingCompression env file (9 / 10))
              @ [still_above 90 b9, attempting 70]
              @ fst (performPdfRenderingCompression env file (7 / 10))
              @ [still_above 70 b7, attempting 50]
              @ fst (performPdfRenderingCompression env file (5 / 10))
              @ [still_above 50 b5, attempting 30]
              @ fst (performPdfRenderingCompression env file (3 / 10))
              @ [still_above 30 b3, not_reached target b3,
                 Download \<lparr>blob_data = b3, blob_type = ''''\<rparr> ''compressed_target_attempt.pdf'',
                 downloaded ''compressed_target_attempt.pdf''],
              Done ())"
    using valid
    by (simp add: compressPDFByTargetRendering_def rejects_target_def loop run_simps
        downloadFile_def)
  show ?thesis by (rule run)
qed

lemma candidate_loop_abort:
  assumes "\<forall>q' \<in> set tried. \<exists>b. snd (performPdfRenderingCompression env file q') = Done b
                                    \<and> target < sizeKB_of (length b)"
    and "snd (performPdfRenderingCompression env file q) = Raised e"
  shows "\<exists>evs. candidate_loop env file target (tried @ q # untried) prev
                  = (evs @ fst (performPdfRenderingCompression env file q), Raised e)
               \<and> downloads evs = []"
  using assms(1)
proof (induction tried arbitrary: prev)
  case Nil
  show ?case
    using candidate_loop_raise[OF assms(2), of target untried prev] by auto
next
  case (Cons q' tried)
  from Cons.prems obtain b where b: "snd (performPdfRenderingCompression env file q') = Done b"
    "target < sizeKB_of (length b)" by auto
  from Cons.prems have "\<forall>q' \<in> set tried. \<exists>b. snd (performPdfRenderingCompression env file q') = Done b
                                    \<and> target < sizeKB_of (length b)" by simp
  from Cons.IH[OF this, of "Some (b, sizeKB_of (length b))"] obtain evs where
    evs: "candidate_loop env file target (tried @ q # untried) (Some (b, sizeKB_of (length b)))
            = (evs @ fst (performPdfRenderingCompression env file q), Raised e)"
      "downloads evs = []" by blast
  have "candidate_loop env file target ((q' # tried) @ q # untried) prev
          = (([attempting (of_int (js_round (q' * 100)))]
              @ fst (performPdfRenderingCompression env file q')
              @ [still_above (of_int (js_round (q' * 100))) b] @ evs)
             @ fst (performPdfRenderingCompression env file q), Raised e)"
    using candidate_loop_reject[OF b, of "tried @ q # untried" prev] evs(1) by simp
  moreover have "downloads ([attempting (of_int (js_round (q' * 100)))]
              @ fst (performPdfRenderingCompression env file q')
              @ [still_above (of_int (js_round (q' * 100))) b] @ evs) = []"
    using evs(2) by simp
  ultimately show ?case by blast
qed

lemma broken_build_90:
  "snd (performPdfRenderingCompression broken_pdf_env 2 (9 / 10)) = Done (replicate 55000 0)"
proof -
  have "replicate 900 (0::byte) @ replicate 50 0 @ replicate 27000 0
          @ replicate 50 0 @ replicate 27000 0 = replicate 55000 0"
    by (simp add: replicate_add[symmetric])
  then show ?thesis
    by (simp add: performPdfRenderingCompression_def page_loop.simps sample_pdf_env_def
        broken_pdf_env_def run_simps save_def drawImage_def addPage_def)
qed

lemma broken_build_70:
  "snd (performPdfRenderingCompression broken_pdf_env 2 (7 / 10)) = Raised (Error ''encoder failed'')"
  by (simp add: performPdfRenderingCompression_def page_loop.simps sample_pdf_env_def
        broken_pdf_env_def run_simps save_def drawImage_def addPage_def)

subsection \<open>How often a page is rendered\<close>







subsection \<open>How often the image is decoded\<close>



subsection \<open>The sample document, again\<close>

lemma sample_document:
  "arrayBuffer sample_pdf_env 2 = Inr [37, 37]" "getDocument sample_pdf_env [37, 37] = Inr 2"
  "numPages sample_pdf_env 2 = 2"
  by (simp_all add: sample_pdf_env_def numeral_2_eq_2)

section \<open>The claims\<close>

subsection \<open>C1: termination of the step-decay search\<close>

text \<open>
  C1 (the step-decay search terminates, and stops at the floor when the floor quality
  does not meet the target). The clamp \<^verbatim>\<open>Math.max(0.05, quality - 0.05)\<close> keeps the
  quality at 0.05 or above, so the loop condition \<^verbatim>\<open>quality >= 0.05\<close> never fails and
  the loop can end only through \<^verbatim>\<open>break\<close>. For the image of \<open>heavy_image_env\<close>, which is
  above 10 KB at every quality, and the target 10 KB, the run is still inside the loop
  whatever fuel it is given: it never reaches the download.
\<close>

theorem step_decay_never_returns:
  "\<forall>fuel. snd (compressImageToTarget fuel heavy_image_env [()] (Some 10)) = Unfinished"
proof
  fix fuel
  have "snd (quality_loop fuel heavy_image_env () 10 (95 / 100) None) = Unfinished"
    by (rule quality_loop_never_exits[OF heavy_big]) simp
  then show "snd (compressImageToTarget fuel heavy_image_env [()] (Some 10)) = Unfinished"
    by (subst compressImage_unfinished[where img = "()"])
       (simp_all add: heavy_image_env_def rejects_target_def)
qed

subsection \<open>C2: how often a page is rasterized\<close>




subsection \<open>C3: the measured size and the delivered bytes\<close>

text \<open>
  C3 (the size the search measures, compares and reports is the byte length of the bytes
  delivered). In \<^verbatim>\<open>compressImageToTarget\<close> the size is \<^verbatim>\<open>result.length\<close>, the number
  of characters of the data URL, while what is downloaded is \<^verbatim>\<open>dataURLToBlob(result)\<close>,
  the bytes its Base64 payload decodes to. For the image of \<open>heavy_image_env\<close> and a target
  of 400 KB the run reports 391 KB and delivers 300000 bytes (293 KB).
\<close>

theorem image_size_is_data_url_length:
  "compressImageToTarget (Suc fuel) heavy_image_env [()] (Some 400)
     = ([SetStatus [Text ''Processing... Target size: '', Num 400,
                    Text '' KB. Initiating iterative compression.''] StProcessing,
         ReadAsDataURL, LoadImage, DrawImage, ToDataURL (19 / 20),
         SetStatus [Text ''Processing... Current quality: '', Num 95, Text ''%. Size: '',
                    Num 391, Text '' KB.''] StProcessing,
         SetStatus [Text ''Target met! Achieved '', Num 391, Text '' KB at '', Num 95,
                    Text ''% quality. Downloading result.''] StSuccess,
         Download \<lparr>blob_data = replicate 300000 0, blob_type = ''image/jpeg''\<rparr>
                  ''CompressedImage.jpg'',
         SetStatus [Text ''File successfully generated and downloaded as **'',
                    Text ''CompressedImage.jpg'', Text ''**''] StSuccess],
        Done ())"
  using dataURLToBlob_As[of 100000]
  by (simp add: compressImageToTarget_def rejects_target_def run_simps heavy_image_env_def
      sizeKB_of_div js_round_def downloadFile_def)

subsection \<open>C4: the qualities examined by the step-decay search\<close>

text \<open>
  C4 (the qualities examined are strictly descending, a prefix of 0.95, 0.90, ..., 0.05).
  On the same input the first twenty encoder calls use the nineteen qualities from 0.95
  down to 0.05 and then 0.05 again: the sequence stops descending at the floor.
\<close>

theorem step_decay_repeats_floor:
  "examined (fst (compressImageToTarget 20 heavy_image_env [()] (Some 10)))
     = [19/20, 9/10, 17/20, 4/5, 3/4, 7/10, 13/20, 3/5, 11/20, 1/2, 9/20, 2/5, 7/20, 3/10, 1/4, 1/5, 3/20, 1/10, 1/20, 1/20]"
proof -
  have "snd (quality_loop 20 heavy_image_env () 10 (95 / 100) None) = Unfinished"
    by (rule quality_loop_never_exits[OF heavy_big]) simp
  then have "compressImageToTarget 20 heavy_image_env [()] (Some 10)
           = ([SetStatus [Text ''Processing... Target size: '', Num 10,
                          Text '' KB. Initiating iterative compression.''] StProcessing,
               ReadAsDataURL, LoadImage, DrawImage]
              @ fst (quality_loop 20 heavy_image_env () 10 (95 / 100) None), Unfinished)"
    by (intro compressImage_unfinished) (simp_all add: heavy_image_env_def rejects_target_def)
  then show ?thesis
    by (simp only: fst_conv examined_append heavy_trace) simp
qed

subsection \<open>C5: the first candidate that meets the target wins\<close>

text \<open>
  C5 (the candidates are tried in descending order and the first that meets the target
  wins). When the build at 0.9 is above the target and the build at 0.7 meets it, the run
  is: the attempt at 90%, its build, the rejection, the attempt at 70%, its build, the
  success status and the download of the bytes of the 0.7 build. Nothing is built or
  encoded at 0.5 or 0.3.
\<close>

theorem first_success_wins:
  assumes valid: "10 \<le> target"
    and b9: "snd (performPdfRenderingCompression env file (9 / 10)) = Done b9"
    and r9: "target < sizeKB_of (length b9)"
    and b7: "snd (performPdfRenderingCompression env file (7 / 10)) = Done b7"
    and r7: "sizeKB_of (length b7) \<le> target"
  shows "compressPDFByTargetRendering env (file # files) (Some target)
           = ([initiating target, attempting 90]
              @ fst (performPdfRenderingCompression env file (9 / 10))
              @ [still_above 90 b9, attempting 70]
              @ fst (performPdfRenderingCompression env file (7 / 10))
              @ [target_met 70 b7,
                 Download \<lparr>blob_data = b7, blob_type = ''''\<rparr> ''compressed_target_success.pdf'',
                 downloaded ''compressed_target_success.pdf''],
              Done ())
       \<and> downloads (fst (compressPDFByTargetRendering env (file # files) (Some target)))
           = [(\<lparr>blob_data = b7, blob_type = ''''\<rparr>, ''compressed_target_success.pdf'')]
       \<and> set (examined (fst (compressPDFByTargetRendering env (file # files) (Some target))))
           \<subseteq> {9 / 10, 7 / 10}"
proof -
  have loop: "candidate_loop env file target qualities None
           = ([attempting 90]
              @ fst (performPdfRenderingCompression env file (9 / 10))
              @ [still_above 90 b9, attempting 70]
              @ fst (performPdfRenderingCompression env file (7 / 10))
              @ [target_met 70 b7,
                 Download \<lparr>blob_data = b7, blob_type = ''''\<rparr> ''compressed_target_success.pdf'',
                 downloaded ''compressed_target_success.pdf''],
              Done Returned)"
    unfolding qualities_def
    by (simp add: candidate_loop_reject[OF b9 r9, simplified]
        candidate_loop_accept[OF b7 r7, simplified])
  have run: "compressPDFByTargetRendering env (file # files) (Some target)
           = ([initiating target, attempting 90]
              @ fst (performPdfRenderingCompression env file (9 / 10))
              @ [still_above 90 b9, attempting 70]
              @ fst (performPdfRenderingCompression env file (7 / 10))
              @ [target_met 70 b7,
                 Download \<lparr>blob_data = b7, blob_type = ''''\<rparr> ''compressed_target_success.pdf'',
                 downloaded ''compressed_target_success.pdf''],
              Done ())"
    using valid by (simp add: compressPDFByTargetRendering_def rejects_target_def loop run_simps)
  have dl: "downloads (fst (compressPDFByTargetRendering env (file # files) (Some target)))
           = [(\<lparr>blob_data = b7, blob_type = ''''\<rparr>, ''compressed_target_success.pdf'')]"
    by (simp only: run fst_conv downloads_append build_downloads) simp
  have ex: "set (examined (fst (compressPDFByTargetRendering env (file # files) (Some target))))
           \<subseteq> {9 / 10, 7 / 10}"
  proof -
    have "set (examined (fst (performPdfRenderingCompression env file (9 / 10)))) \<subseteq> {9 / 10}"
      and "set (examined (fst (performPdfRenderingCompression env file (7 / 10)))) \<subseteq> {7 / 10}"
      by (rule build_examined)+
    then show ?thesis
      by (simp only: run fst_conv examined_append) auto
  qed
  from run dl ex show ?thesis by (intro conjI)
qed

theorem first_success_wins_witness:
  "(10::int) \<le> 45
   \<and> snd (performPdfRenderingCompression sample_pdf_env 2 (9 / 10)) = Done (replicate 55000 0)
   \<and> 45 < sizeKB_of (length (replicate 55000 (0::byte)))
   \<and> snd (performPdfRenderingCompression sample_pdf_env 2 (7 / 10)) = Done (replicate 43000 0)
   \<and> sizeKB_of (length (replicate 43000 (0::byte))) \<le> 45
   \<and> downloads (fst (compressPDFByTargetRendering sample_pdf_env [2] (Some 45)))
       = [(\<lparr>blob_data = replicate 43000 0, blob_type = ''''\<rparr>, ''compressed_target_success.pdf'')]
   \<and> set (examined (fst (compressPDFByTargetRendering sample_pdf_env [2] (Some 45))))
       \<subseteq> {9 / 10, 7 / 10}"
proof -
  have v: "(10::int) \<le> 45" by simp
  have b9: "snd (performPdfRenderingCompression sample_pdf_env 2 (9 / 10)) = Done (replicate 55000 0)"
    by (simp add: sample_build)
  have r9: "45 < sizeKB_of (length (replicate 55000 (0::byte)))"
    by (simp add: sizeKB_of_div)
  have b7: "snd (performPdfRenderingCompression sample_pdf_env 2 (7 / 10)) = Done (replicate 43000 0)"
    by (simp add: sample_build)
  have r7: "sizeKB_of (length (replicate 43000 (0::byte))) \<le> 45"
    by (simp add: sizeKB_of_div)
  note c = first_success_wins[OF v b9 r9 b7 r7, of "[]", THEN conjunct2]
  from v b9 r9 b7 r7 c show ?thesis by blast
qed

subsection \<open>C6: no candidate meets the target\<close>

text \<open>
  C6 (when no candidate meets the target, the result of the last candidate is still
  delivered). When all four builds complete above the target, the run ends normally,
  reports that the target was not reached, and downloads exactly the bytes of the build
  at 0.3, under the name \<^verbatim>\<open>compressed_target_attempt.pdf\<close>.
\<close>

theorem exhausted_search_delivers_last:
  assumes valid: "10 \<le> target"
    and b9: "snd (performPdfRenderingCompression env file (9 / 10)) = Done b9"
    and r9: "target < sizeKB_of (length b9)"
    and b7: "snd (performPdfRenderingCompression env file (7 / 10)) = Done b7"
    and r7: "target < sizeKB_of (length b7)"
    and b5: "snd (performPdfRenderingCompression env file (5 / 10)) = Done b5"
    and r5: "target < sizeKB_of (length b5)"
    and b3: "snd (performPdfRenderingCompression env file (3 / 10)) = Done b3"
    and r3: "target < sizeKB_of (length b3)"
  shows "compressPDFByTargetRendering env (file # files) (Some target)
           = ([initiating target, attempting 90]
              @ fst (performPdfRenderingCompression env file (9 / 10))
              @ [still_above 90 b9, attempting 70]
              @ fst (performPdfRenderingCompression env file (7 / 10))
              @ [still_above 70 b7, attempting 50]
              @ fst (performPdfRenderingCompression env file (5 / 10))
              @ [still_above 50 b5, attempting 30]
              @ fst (performPdfRenderingCompression env file (3 / 10))
              @ [still_above 30 b3, not_reached target b3,
                 Download \<lparr>blob_data = b3, blob_type = ''''\<rparr> ''compressed_target_attempt.pdf'',
                 downloaded ''compressed_target_attempt.pdf''],
              Done ())
       \<and> downloads (fst (compressPDFByTargetRendering env (file # files) (Some target)))
           = [(\<lparr>blob_data = b3, blob_type = ''''\<rparr>, ''compressed_target_attempt.pdf'')]"
proof -
  note run = exhausted_run[OF assms]
  show ?thesis
    by (rule conjI[OF run]) (simp only: run fst_conv downloads_append build_downloads, simp)
qed

theorem exhausted_search_delivers_last_witness:
  "(10::int) \<le> 10
   \<and> snd (performPdfRenderingCompression sample_pdf_env 2 (9 / 10)) = Done (replicate 55000 0)
   \<and> 10 < sizeKB_of (length (replicate 55000 (0::byte)))
   \<and> snd (performPdfRenderingCompression sample_pdf_env 2 (7 / 10)) = Done (replicate 43000 0)
   \<and> 10 < sizeKB_of (length (replicate 43000 (0::byte)))
   \<and> snd (performPdfRenderingCompression sample_pdf_env 2 (5 / 10)) = Done (replicate 31000 0)
   \<and> 10 < sizeKB_of (length (replicate 31000 (0::byte)))
   \<and> snd (performPdfRenderingCompression sample_pdf_env 2 (3 / 10)) = Done (replicate 19000 0)
   \<and> 10 < sizeKB_of (length (replicate 19000 (0::byte)))
   \<and> downloads (fst (compressPDFByTargetRendering sample_pdf_env [2] (Some 10)))
       = [(\<lparr>blob_data = replicate 19000 0, blob_type = ''''\<rparr>, ''compressed_target_attempt.pdf'')]"
proof -
  have v: "(10::int) \<le> 10" by simp
  have b9: "snd (performPdfRenderingCompression sample_pdf_env 2 (9 / 10)) = Done (replicate 55000 0)"
    by (simp add: sample_build)
  have r9: "10 < sizeKB_of (length (replicate 55000 (0::byte)))"
    by (simp add: sizeKB_of_div)
  have b7: "snd (performPdfRenderingCompression sample_pdf_env 2 (7 / 10)) = Done (replicate 43000 0)"
    by (simp add: sample_build)
  have r7: "10 < sizeKB_of (length (replicate 43000 (0::byte)))"
    by (simp add: sizeKB_of_div)
  have b5: "snd (performPdfRenderingCompression sample_pdf_env 2 (5 / 10)) = Done (replicate 31000 0)"
    by (simp add: sample_build)
  have r5: "10 < sizeKB_of (length (replicate 31000 (0::byte)))"
    by (simp add: sizeKB_of_div)
  have b3: "snd (performPdfRenderingCompression sample_pdf_env 2 (3 / 10)) = Done (replicate 19000 0)"
    by (simp add: sample_build)
  have r3: "10 < sizeKB_of (length (replicate 19000 (0::byte)))"
    by (simp add: sizeKB_of_div)
  note c = exhausted_search_delivers_last[OF v b9 r9 b7 r7 b5 r5 b3 r3, of "[]", THEN conjunct2]
  from v b9 r9 b7 r7 b5 r5 b3 r3 c show ?thesis by (intro conjI)
qed

subsection \<open>C7: rejected targets\<close>

text \<open>
  C7 (an absent or too small target is a configuration error, with no search step and no
  collaborator call). When the guard \<^verbatim>\<open>!targetKB || targetKB < 10\<close> holds, the whole
  run of either reducer is one error status: the message about the target, or the message
  about the missing file when no file is selected either.
\<close>

theorem rejected_target_does_nothing:
  assumes "rejects_target imgTarget" and "rejects_target (map_option of_int pdfTarget)"
  shows "compressImageToTarget fuel ienv ifiles imgTarget
           = ([SetStatus (if ifiles = [] then [Text ''Error: Select an image file!'']
                          else [Text ''Error: Enter a valid target size (minimum 10 KB)!''])
                         StError], Done ())
       \<and> compressPDFByTargetRendering penv pfiles pdfTarget
           = ([SetStatus (if pfiles = [] then [Text ''Error: Select a PDF file!'']
                          else [Text ''Error: Enter a valid target size (minimum 10 KB)''])
                         StError], Done ())"
  using assms
  by (simp add: compressImageToTarget_def compressPDFByTargetRendering_def run_simps
      split: list.splits)

theorem rejected_target_does_nothing_witness:
  "rejects_target (Some 5) \<and> rejects_target (map_option of_int (Some 5))
   \<and> compressImageToTarget 30 heavy_image_env [()] (Some 5)
       = ([SetStatus [Text ''Error: Enter a valid target size (minimum 10 KB)!''] StError], Done ())
   \<and> compressPDFByTargetRendering sample_pdf_env [2] (Some 5)
       = ([SetStatus [Text ''Error: Enter a valid target size (minimum 10 KB)''] StError], Done ())"
proof -
  have a: "rejects_target (Some 5)" by (simp add: rejects_target_def)
  have b: "rejects_target (map_option of_int (Some 5))" by (simp add: rejects_target_def)
  show ?thesis
    using a b rejected_target_does_nothing[OF a b, of 30 heavy_image_env "[()]" sample_pdf_env "[2]"] by simp
qed

subsection \<open>C8: page count and page order\<close>

text \<open>
  C8 (for every document the fixed-quality reduction preserves page count and page
  order). \<^verbatim>\<open>pdfDocLib.save()\<close> gives a document that has no page one blank page, so for
  a source of zero pages the output has one page: with the sample collaborators the
  result is the 950 bytes of a one-page document, not the 900 bytes of an empty one.
\<close>

theorem zero_page_source_gains_a_page:
  "numPages sample_pdf_env 0 = 0
   \<and> snd (performPdfRenderingCompression sample_pdf_env 0 (9 / 10)) = Done (replicate 950 0)
   \<and> serialize sample_pdf_env [\<lparr>page_size = defaultPageSize sample_pdf_env, drawings = []\<rparr>]
       = Inr (replicate 950 0)
   \<and> serialize sample_pdf_env [] = Inr (replicate 900 0)"
proof -
  have "replicate 900 (0::byte) @ replicate 50 0 = replicate 950 0"
    by (simp add: replicate_add[symmetric])
  then show ?thesis
    by (simp add: performPdfRenderingCompression_def page_loop.simps sample_pdf_env_def
        run_simps save_def addPage_def)
qed

text \<open>
  C8, as amended: for every document with at least one page. Whenever a build of such a
  document completes, the document that is serialized has as many pages as the source,
  and its page at each position is the full-page image of the source page at that
  position: it has the size of that page's viewport and carries exactly one image, the
  encoding of that page, drawn from the origin over the whole page.
\<close>

theorem fixed_quality_preserves_pages:
  assumes "snd (performPdfRenderingCompression env file quality) = Done out"
    and "arrayBuffer env file = Inr buffer" and "getDocument env buffer = Inr pdf"
    and "1 \<le> numPages env pdf"
  shows "\<exists>doc. serialize env doc = Inr out
           \<and> length doc = numPages env pdf
           \<and> (\<forall>i < numPages env pdf. is_page_of env pdf quality (Suc i) (doc ! i))"
proof -
  obtain evs r where pl: "page_loop env pdf quality (numPages env pdf) 1 [] = (evs, r)"
    by (cases "page_loop env pdf quality (numPages env pdf) 1 []")
  with assms obtain doc where r: "r = Done doc"
    by (cases r) (simp_all add: performPdfRenderingCompression_def save_def run_simps)
  from page_loop_pages[of env pdf quality "numPages env pdf" 1 "[]" evs doc] pl r
  have pages: "list_all2 (is_page_of env pdf quality) [1 ..< Suc (numPages env pdf)] doc"
    by simp
  from list_all2_lengthD[OF pages] have len: "length doc = numPages env pdf"
    by (simp del: upt_Suc)
  with assms(4) have "doc \<noteq> []" by auto
  with assms pl r have ser: "serialize env doc = Inr out"
    by (simp add: performPdfRenderingCompression_def save_def run_simps split: sum.splits)
  have "is_page_of env pdf quality (Suc i) (doc ! i)" if "i < numPages env pdf" for i
    using list_all2_nthD[OF pages, of i] that by (simp del: upt_Suc)
  with ser len show ?thesis by blast
qed

theorem fixed_quality_preserves_pages_witness:
  "snd (performPdfRenderingCompression sample_pdf_env 2 (1 / 2)) = Done (replicate 31000 0)
   \<and> arrayBuffer sample_pdf_env 2 = Inr [37, 37] \<and> getDocument sample_pdf_env [37, 37] = Inr 2
   \<and> 1 \<le> numPages sample_pdf_env 2
   \<and> (\<exists>doc. serialize sample_pdf_env doc = Inr (replicate 31000 0)
           \<and> length doc = numPages sample_pdf_env 2
           \<and> (\<forall>i < numPages sample_pdf_env 2. is_page_of sample_pdf_env 2 (1 / 2) (Suc i) (doc ! i)))"
proof -
  have h1: "snd (performPdfRenderingCompression sample_pdf_env 2 (1 / 2)) = Done (replicate 31000 0)"
    by (simp add: sample_build)
  have h4: "1 \<le> numPages sample_pdf_env 2" by (simp add: sample_document)
  note c = fixed_quality_preserves_pages[OF h1 sample_document(1,2) h4]
  from h1 sample_document(1,2) h4 c show ?thesis by blast
qed

subsection \<open>C9: failing collaborators\<close>

text \<open>
  C9 (a failing rasterizer, encoder or document assembly aborts the whole reduction, and
  nothing is delivered). A build that throws, whichever collaborator call threw, ends
  the run at once: the error goes to the console, its message goes to the status line,
  and nothing is downloaded. This holds for the fixed-quality reducer, and, on its own,
  for the target search at any candidate, also when earlier candidates were built and
  rejected as too large.
\<close>

theorem collaborator_failure_aborts:
  "(snd (performPdfRenderingCompression env file quality) = Raised e
      \<longrightarrow> compressPDFByRenderingQuality env (file # files) quality
            = ([initiating_fixed quality]
               @ fst (performPdfRenderingCompression env file quality)
               @ [ConsoleError ''Compression Failed:'' e, pdf_failed e], Done ())
          \<and> downloads (fst (compressPDFByRenderingQuality env (file # files) quality)) = [])
   \<and> (10 \<le> target \<and> qualities = tried @ q # untried
        \<and> (\<forall>q' \<in> set tried. \<exists>b. snd (performPdfRenderingCompression tenv tfile q') = Done b
                                   \<and> target < sizeKB_of (length b))
        \<and> snd (performPdfRenderingCompression tenv tfile q) = Raised e'
      \<longrightarrow> (\<exists>evs. compressPDFByTargetRendering tenv (tfile # tfiles) (Some target)
                   = (evs @ fst (performPdfRenderingCompression tenv tfile q)
                      @ [ConsoleError ''Target Compression Failed:'' e', pdf_failed e'], Done ()))
          \<and> downloads (fst (compressPDFByTargetRendering tenv (tfile # tfiles) (Some target))) = [])"
proof (intro conjI impI)
  assume fixed: "snd (performPdfRenderingCompression env file quality) = Raised e"
  show a: "compressPDFByRenderingQuality env (file # files) quality
           = ([initiating_fixed quality]
              @ fst (performPdfRenderingCompression env file quality)
              @ [ConsoleError ''Compression Failed:'' e, pdf_failed e], Done ())"
    using fixed
    by (cases "performPdfRenderingCompression env file quality")
       (simp add: compressPDFByRenderingQuality_def run_simps)
  show "downloads (fst (compressPDFByRenderingQuality env (file # files) quality)) = []"
    by (simp only: a fst_conv downloads_append build_downloads) simp
next
  assume h: "10 \<le> target \<and> qualities = tried @ q # untried
        \<and> (\<forall>q' \<in> set tried. \<exists>b. snd (performPdfRenderingCompression tenv tfile q') = Done b
                                   \<and> target < sizeKB_of (length b))
        \<and> snd (performPdfRenderingCompression tenv tfile q) = Raised e'"
  then have valid: "10 \<le> target" and split: "qualities = tried @ q # untried"
    and before: "\<forall>q' \<in> set tried. \<exists>b. snd (performPdfRenderingCompression tenv tfile q') = Done b
                                   \<and> target < sizeKB_of (length b)"
    and fails: "snd (performPdfRenderingCompression tenv tfile q) = Raised e'"
    by blast+
  from candidate_loop_abort[OF before fails, of untried None] split obtain evs where
    evs: "candidate_loop tenv tfile target qualities None
            = (evs @ fst (performPdfRenderingCompression tenv tfile q), Raised e')"
      "downloads evs = []" by auto
  have c: "compressPDFByTargetRendering tenv (tfile # tfiles) (Some target)
             = ((initiating target # evs) @ fst (performPdfRenderingCompression tenv tfile q)
                @ [ConsoleError ''Target Compression Failed:'' e', pdf_failed e'], Done ())"
    using valid
    by (simp add: compressPDFByTargetRendering_def rejects_target_def evs(1) run_simps)
  then show "\<exists>evs. compressPDFByTargetRendering tenv (tfile # tfiles) (Some target)
                   = (evs @ fst (performPdfRenderingCompression tenv tfile q)
                      @ [ConsoleError ''Target Compression Failed:'' e', pdf_failed e'], Done ())"
    by blast
  show "downloads (fst (compressPDFByTargetRendering tenv (tfile # tfiles) (Some target))) = []"
    using evs(2) by (simp only: c fst_conv downloads_append build_downloads) simp
qed

theorem collaborator_failure_aborts_witness:
  "snd (performPdfRenderingCompression broken_pdf_env 2 (7 / 10)) = Raised (Error ''encoder failed'')
   \<and> (10::int) \<le> 10
   \<and> qualities = [9 / 10] @ 7 / 10 # [5 / 10, 3 / 10]
   \<and> snd (performPdfRenderingCompression broken_pdf_env 2 (9 / 10)) = Done (replicate 55000 0)
   \<and> 10 < sizeKB_of (length (replicate 55000 (0::byte)))
   \<and> downloads (fst (compressPDFByRenderingQuality broken_pdf_env [2] (7 / 10))) = []
   \<and> downloads (fst (compressPDFByTargetRendering broken_pdf_env [2] (Some 10))) = []"
proof -
  have f: "snd (performPdfRenderingCompression broken_pdf_env 2 (7 / 10)) = Raised (Error ''encoder failed'')"
    by (rule broken_build_70)
  have v: "(10::int) \<le> 10" by simp
  have s: "qualities = [9 / 10] @ 7 / 10 # [5 / 10, 3 / 10]" by (simp add: qualities_def)
  have r: "10 < sizeKB_of (length (replicate 55000 (0::byte)))"
    by (simp add: sizeKB_of_div)
  have t: "\<forall>q' \<in> set [9 / 10]. \<exists>b. snd (performPdfRenderingCompression broken_pdf_env 2 q') = Done b
                                    \<and> 10 < sizeKB_of (length b)"
    using broken_build_90 r by simp
  note c = collaborator_failure_aborts[of broken_pdf_env 2 "7 / 10" "Error ''encoder failed''" "[]"
      10 "[9 / 10]" "7 / 10" "[5 / 10, 3 / 10]" broken_pdf_env 2 "Error ''encoder failed''" "[]"]
  have c1: "downloads (fst (compressPDFByRenderingQuality broken_pdf_env [2] (7 / 10))) = []"
    using c[THEN conjunct1] f by blast
  have c2: "downloads (fst (compressPDFByTargetRendering broken_pdf_env [2] (Some 10))) = []"
    using c[THEN conjunct2] v s t f by blast
  from f v s broken_build_90 r c1 c2 show ?thesis by blast
qed

subsection \<open>C10: a document with no pages\<close>

text \<open>
  C10 (for a document with zero pages the fixed-quality reduction calls neither the
  rasterizer nor the encoder and returns the serialization of a document with zero
  pages). The first half holds. The result, though, is not the serialization of a
  document without pages: \<^verbatim>\<open>pdfDocLib.save()\<close> adds a blank page to a document that has
  none. With the sample collaborators the run returns 950 bytes, where the empty
  document would serialize to 900.
\<close>

theorem zero_pages_not_saved_empty:
  "performPdfRenderingCompression sample_pdf_env 0 (1 / 2)
     = ([ArrayBuffer, CreateDocument, GetDocument, Save], Done (replicate 950 0))
   \<and> serialize sample_pdf_env [] = Inr (replicate 900 0)"
proof -
  have "replicate 900 (0::byte) @ replicate 50 0 = replicate 950 0"
    by (simp add: replicate_add[symmetric])
  then show ?thesis
    by (simp add: performPdfRenderingCompression_def page_loop.simps sample_pdf_env_def
        run_simps save_def addPage_def)
qed

text \<open>
  C10, as amended. When the loaded document has no pages, the build reads the file,
  creates the new document, loads the source and saves: no page is fetched or rendered
  and nothing is encoded, whatever the quality, and what it returns is the serialization
  of a document of one page, the blank page of the default size that \<^verbatim>\<open>save\<close> adds.
\<close>

theorem zero_pages_build:
  assumes "arrayBuffer env file = Inr buffer" and "getDocument env buffer = Inr pdf"
    and "numPages env pdf = 0"
    and "serialize env [\<lparr>page_size = defaultPageSize env, drawings = []\<rparr>] = Inr out"
  shows "performPdfRenderingCompression env file quality
           = ([ArrayBuffer, CreateDocument, GetDocument, Save], Done out)"
  using assms
  by (simp add: performPdfRenderingCompression_def page_loop.simps save_def addPage_def run_simps)

theorem zero_pages_build_witness:
  "arrayBuffer sample_pdf_env 0 = Inr [] \<and> getDocument sample_pdf_env [] = Inr 0
   \<and> numPages sample_pdf_env 0 = 0
   \<and> serialize sample_pdf_env [\<lparr>page_size = defaultPageSize sample_pdf_env, drawings = []\<rparr>]
       = Inr (replicate 950 0)
   \<and> performPdfRenderingCompression sample_pdf_env 0 (1 / 2)
       = ([ArrayBuffer, CreateDocument, GetDocument, Save], Done (replicate 950 0))"
proof -
  have a: "arrayBuffer sample_pdf_env 0 = Inr []" by (simp add: sample_pdf_env_def)
  have b: "getDocument sample_pdf_env [] = Inr 0" by (simp add: sample_pdf_env_def)
  have c: "numPages sample_pdf_env 0 = 0" by (simp add: sample_pdf_env_def)
  have d: "serialize sample_pdf_env [\<lparr>page_size = defaultPageSize sample_pdf_env, drawings = []\<rparr>]
       = Inr (replicate 950 0)"
    by (simp add: sample_pdf_env_def replicate_add[symmetric])
  note e = zero_pages_build[OF a b c d, of "1 / 2"]
  from a b c d e show ?thesis by blast
qed

end
